theory Spec2Isabelle
  imports Main
begin

section \<open>Data model of ADSL/src/DirectiveProcessor.cpp\<close>

text \<open>
  Modelled from the spec: the class AVSDirective is declared in a header that is not
  among the sources. The processor reads two things of a directive, getMessageId() and
  getDialogRequestId(), and holds directives through std::shared_ptr, so that
  \<^verbatim>\<open>m_handlingQueue.front() == directive\<close> compares the identity of the objects pointed
  to. The field \<open>object\<close> is that identity.
\<close>

record AVSDirective =
  object :: nat
  getMessageId :: string
  getDialogRequestId :: string

definition same_directive :: "AVSDirective \<Rightarrow> AVSDirective \<Rightarrow> bool" where
  "same_directive a b \<longleftrightarrow> object a = object b"

text \<open>
  Modelled from the spec: the enumeration BlockingPolicy is declared in a header that is
  not among the sources; the spec gives its three values, the code names
  \<^verbatim>\<open>BlockingPolicy::NONE\<close> and \<^verbatim>\<open>BlockingPolicy::BLOCKING\<close>.
\<close>

datatype BlockingPolicy = NONE | NON_BLOCKING | BLOCKING

text \<open>
  The members of DirectiveProcessor that the code under study reads and writes. The
  condition variable \<open>m_wakeProcessingLoop\<close> is modelled by the number of
  \<^verbatim>\<open>notify_one()\<close> calls made on it so far.
\<close>

record DirectiveProcessor =
  m_handle :: nat
  m_isShuttingDown :: bool
  m_dialogRequestId :: string
  m_directiveBeingPreHandled :: "AVSDirective option"
  m_handlingQueue :: "AVSDirective list"
  m_cancelingQueue :: "AVSDirective list"
  m_isHandlingDirective :: bool
  m_wakeProcessingLoop :: nat

text \<open>DirectiveProcessor::DirectiveHandlerResult, lines 127-130.\<close>

record DirectiveHandlerResult =
  m_processorHandle :: nat
  m_messageId :: string

definition newDirectiveHandlerResult :: "nat \<Rightarrow> AVSDirective \<Rightarrow> DirectiveHandlerResult" where
  "newDirectiveHandlerResult processorHandle directive =
     \<lparr>m_processorHandle = processorHandle, m_messageId = getMessageId directive\<rparr>"

text \<open>The calls that the processor makes on \<open>m_directiveRouter\<close>.\<close>

datatype router_call =
    PreHandleDirective AVSDirective DirectiveHandlerResult
  | HandleDirective AVSDirective
  | CancelDirective AVSDirective

text \<open>
  The router is called with \<open>m_mutex\<close> released, so other threads may change the
  processor while the call runs. A router operation is therefore a function from the
  state left at \<^verbatim>\<open>lock.unlock()\<close> to the router's answer and the state found at
  \<^verbatim>\<open>lock.lock()\<close>.
\<close>

type_synonym 'r released = "DirectiveProcessor \<Rightarrow> 'r \<times> DirectiveProcessor"

section \<open>Operations holding m_mutex\<close>

definition notify_one :: "DirectiveProcessor \<Rightarrow> DirectiveProcessor" where
  "notify_one s = s\<lparr>m_wakeProcessingLoop := Suc (m_wakeProcessingLoop s)\<rparr>"

text \<open>queueAllDirectivesForCancellationLocked, lines 278-290.\<close>

definition queueAllDirectivesForCancellationLocked :: "DirectiveProcessor \<Rightarrow> DirectiveProcessor" where
  "queueAllDirectivesForCancellationLocked s =
     (let s1 = s\<lparr>m_dialogRequestId := []\<rparr>;
          s2 = (case m_directiveBeingPreHandled s1 of
                  Some d \<Rightarrow> s1\<lparr>m_handlingQueue := m_handlingQueue s1 @ [d],
                                m_directiveBeingPreHandled := None\<rparr>
                | None \<Rightarrow> s1);
          s3 = (if m_handlingQueue s2 \<noteq> []
                then notify_one
                       (s2\<lparr>m_cancelingQueue := m_cancelingQueue s2 @ m_handlingQueue s2,
                           m_handlingQueue := []\<rparr>)
                else s2)
      in s3\<lparr>m_isHandlingDirective := False\<rparr>)"

text \<open>setDialogRequestId, lines 63-72.\<close>

definition setDialogRequestId :: "string \<Rightarrow> DirectiveProcessor \<Rightarrow> DirectiveProcessor" where
  "setDialogRequestId dialogRequestId s =
     (if dialogRequestId = m_dialogRequestId s then s
      else (queueAllDirectivesForCancellationLocked s)\<lparr>m_dialogRequestId := dialogRequestId\<rparr>)"

text \<open>
  findDirectiveInQueueLocked, lines 203-210. The iterator returned by \<^verbatim>\<open>std::find_if\<close> is the
  position of the first element with the message id; \<open>length queue\<close> is \<open>queue.end()\<close>.
\<close>

definition findDirectiveInQueueLocked :: "string \<Rightarrow> AVSDirective list \<Rightarrow> nat" where
  "findDirectiveInQueueLocked messageId queue =
     length (takeWhile (\<lambda>element. getMessageId element \<noteq> messageId) queue)"

text \<open>
  removeDirectiveFromQueueLocked, lines 212-219. The queue is passed by reference; the
  model returns the queue after \<^verbatim>\<open>erase\<close> beside the processor.
\<close>

definition removeDirectiveFromQueueLocked ::
  "nat \<Rightarrow> AVSDirective list \<Rightarrow> DirectiveProcessor \<Rightarrow> AVSDirective list \<times> DirectiveProcessor" where
  "removeDirectiveFromQueueLocked it queue s =
     (let queue' = take it queue @ drop (Suc it) queue
      in (queue', if queue' \<noteq> [] then notify_one s else s))"

text \<open>removeFromHandlingQueueLocked, lines 182-192.\<close>

definition removeFromHandlingQueueLocked ::
  "string \<Rightarrow> DirectiveProcessor \<Rightarrow> bool \<times> DirectiveProcessor" where
  "removeFromHandlingQueueLocked messageId s =
     (let it = findDirectiveInQueueLocked messageId (m_handlingQueue s)
      in if it = length (m_handlingQueue s) then (False, s)
         else
           (let s1 = (if m_isHandlingDirective s \<and> it = 0
                      then s\<lparr>m_isHandlingDirective := False\<rparr> else s)
            in case removeDirectiveFromQueueLocked it (m_handlingQueue s1) s1 of
                 (queue', s2) \<Rightarrow> (True, s2\<lparr>m_handlingQueue := queue'\<rparr>)))"

text \<open>removeFromCancelingQueueLocked, lines 194-201.\<close>

definition removeFromCancelingQueueLocked ::
  "string \<Rightarrow> DirectiveProcessor \<Rightarrow> bool \<times> DirectiveProcessor" where
  "removeFromCancelingQueueLocked messageId s =
     (let it = findDirectiveInQueueLocked messageId (m_cancelingQueue s)
      in if it = length (m_cancelingQueue s) then (False, s)
         else
           (case removeDirectiveFromQueueLocked it (m_cancelingQueue s) s of
              (queue', s1) \<Rightarrow> (True, s1\<lparr>m_cancelingQueue := queue'\<rparr>)))"

text \<open>The test of lines 157 and 172.\<close>

definition beingPreHandled :: "string \<Rightarrow> DirectiveProcessor \<Rightarrow> bool" where
  "beingPreHandled messageId s =
     (case m_directiveBeingPreHandled s of
        Some d \<Rightarrow> getMessageId d = messageId
      | None \<Rightarrow> False)"

text \<open>onHandlingCompleted, lines 152-162.\<close>

definition onHandlingCompleted :: "string \<Rightarrow> DirectiveProcessor \<Rightarrow> DirectiveProcessor" where
  "onHandlingCompleted messageId s =
     (if beingPreHandled messageId s then s\<lparr>m_directiveBeingPreHandled := None\<rparr>
      else
        (case removeFromHandlingQueueLocked messageId s of
           (removed, s1) \<Rightarrow>
             if \<not> removed then snd (removeFromCancelingQueueLocked messageId s1) else s1))"

text \<open>onHandlingFailed, lines 164-180. The description is only logged.\<close>

definition onHandlingFailed :: "string \<Rightarrow> string \<Rightarrow> DirectiveProcessor \<Rightarrow> DirectiveProcessor" where
  "onHandlingFailed messageId description s =
     (if beingPreHandled messageId s
      then queueAllDirectivesForCancellationLocked (s\<lparr>m_directiveBeingPreHandled := None\<rparr>)
      else
        (case removeFromHandlingQueueLocked messageId s of
           (removed, s1) \<Rightarrow>
             if removed then queueAllDirectivesForCancellationLocked s1
             else snd (removeFromCancelingQueueLocked messageId s1)))"

section \<open>Operations that release m_mutex around a router call\<close>

text \<open>onDirective, lines 100-106: what is done once the lock is held again.\<close>

definition onDirective_relocked :: "AVSDirective \<Rightarrow> bool \<Rightarrow> DirectiveProcessor \<Rightarrow> DirectiveProcessor" where
  "onDirective_relocked directive handled s =
     (if m_directiveBeingPreHandled s \<noteq> None
      then
        (let s1 = s\<lparr>m_directiveBeingPreHandled := None\<rparr>
         in if handled
            then notify_one (s1\<lparr>m_handlingQueue := m_handlingQueue s1 @ [directive]\<rparr>)
            else s1)
      else s)"

text \<open>
  onDirective, lines 74-109. The argument is a shared pointer that may be null. The result
  is the returned boolean, the processor afterwards and the router calls made.
\<close>

definition onDirective ::
  "(AVSDirective \<Rightarrow> DirectiveHandlerResult \<Rightarrow> bool released) \<Rightarrow> AVSDirective option \<Rightarrow>
   DirectiveProcessor \<Rightarrow> bool \<times> DirectiveProcessor \<times> router_call list" where
  "onDirective preHandleDirective directive s =
     (case directive of
        None \<Rightarrow> (False, s, [])
      | Some d \<Rightarrow>
          if m_isShuttingDown s then (False, s, [])
          else if getDialogRequestId d \<noteq> m_dialogRequestId s then (True, s, [])
          else
            (let s1 = s\<lparr>m_directiveBeingPreHandled := Some d\<rparr>;
                 result = newDirectiveHandlerResult (m_handle s1) d
             in case preHandleDirective d result s1 of
                  (handled, s2) \<Rightarrow>
                    (handled, onDirective_relocked d handled s2, [PreHandleDirective d result])))"

text \<open>processCancelingQueueLocked, lines 235-246.\<close>

definition processCancelingQueueLocked ::
  "(AVSDirective \<Rightarrow> unit released) \<Rightarrow> DirectiveProcessor \<Rightarrow>
   bool \<times> DirectiveProcessor \<times> router_call list" where
  "processCancelingQueueLocked cancelDirective s =
     (if m_cancelingQueue s = [] then (False, s, [])
      else
        (let temp = m_cancelingQueue s;
             s1 = s\<lparr>m_cancelingQueue := []\<rparr>
         in (True, fold (\<lambda>directive t. snd (cancelDirective directive t)) temp s1,
             map CancelDirective temp)))"

text \<open>handleDirectiveLocked, lines 261-274: what is done once the lock is held again.\<close>

definition handleDirectiveLocked_relocked ::
  "AVSDirective \<Rightarrow> bool \<Rightarrow> BlockingPolicy \<Rightarrow> DirectiveProcessor \<Rightarrow> DirectiveProcessor" where
  "handleDirectiveLocked_relocked directive handled policy s =
     (let s2 = (if \<not> handled \<or> BLOCKING \<noteq> policy
                then
                  (let s1 = s\<lparr>m_isHandlingDirective := False\<rparr>
                   in case m_handlingQueue s1 of
                        front # rest \<Rightarrow>
                          if same_directive front directive then s1\<lparr>m_handlingQueue := rest\<rparr>
                          else s1
                      | [] \<Rightarrow> s1)
                else s)
      in if \<not> handled then queueAllDirectivesForCancellationLocked s2 else s2)"

text \<open>
  handleDirectiveLocked, lines 248-276. The router's handleDirective returns a boolean and
  may write a policy through the pointer it is given; the variable it writes to starts as
  \<^verbatim>\<open>BlockingPolicy::NONE\<close>.
\<close>

definition handleDirectiveLocked ::
  "(AVSDirective \<Rightarrow> (bool \<times> BlockingPolicy option) released) \<Rightarrow> DirectiveProcessor \<Rightarrow>
   bool \<times> DirectiveProcessor \<times> router_call list" where
  "handleDirectiveLocked handleDirective s =
     (case m_handlingQueue s of
        [] \<Rightarrow> (False, s, [])
      | directive # _ \<Rightarrow>
          if m_isHandlingDirective s then (True, s, [])
          else
            (let s1 = s\<lparr>m_isHandlingDirective := True\<rparr>
             in case handleDirective directive s1 of
                  ((handled, written), s2) \<Rightarrow>
                    (let policy = (case written of Some p \<Rightarrow> p | None \<Rightarrow> NONE)
                     in (True, handleDirectiveLocked_relocked directive handled policy s2,
                         [HandleDirective directive]))))"

text \<open>shutdown, lines 116-121: the block that holds \<open>m_mutex\<close>.\<close>

definition shutdown_locked :: "DirectiveProcessor \<Rightarrow> DirectiveProcessor" where
  "shutdown_locked s =
     notify_one ((queueAllDirectivesForCancellationLocked s)\<lparr>m_isShuttingDown := True\<rparr>)"

section \<open>The handle map\<close>

text \<open>
  The static members of lines 45-47 and the processor objects that are alive, by address.
  \<open>m_handleMap\<close> maps a handle to the address of a processor.
\<close>

record process =
  m_nextProcessorHandle :: nat
  m_handleMap :: "nat \<rightharpoonup> nat"
  processors :: "nat \<rightharpoonup> DirectiveProcessor"

datatype fault = DeadProcessorDereferenced

text \<open>DirectiveHandlerResult::setCompleted, lines 132-140.\<close>

definition setCompleted :: "DirectiveHandlerResult \<Rightarrow> process \<Rightarrow> fault + process" where
  "setCompleted r w =
     (case m_handleMap w (m_processorHandle r) of
        None \<Rightarrow> Inr w
      | Some p \<Rightarrow>
          (case processors w p of
             None \<Rightarrow> Inl DeadProcessorDereferenced
           | Some s \<Rightarrow>
               Inr (w\<lparr>processors := (processors w)(p \<mapsto> onHandlingCompleted (m_messageId r) s)\<rparr>)))"

text \<open>DirectiveHandlerResult::setFailed, lines 142-150.\<close>

definition setFailed :: "DirectiveHandlerResult \<Rightarrow> string \<Rightarrow> process \<Rightarrow> fault + process" where
  "setFailed r description w =
     (case m_handleMap w (m_processorHandle r) of
        None \<Rightarrow> Inr w
      | Some p \<Rightarrow>
          (case processors w p of
             None \<Rightarrow> Inl DeadProcessorDereferenced
           | Some s \<Rightarrow>
               Inr (w\<lparr>processors :=
                        (processors w)(p \<mapsto> onHandlingFailed (m_messageId r) description s)\<rparr>)))"

text \<open>
  shutdown, lines 111-121, of the processor at address \<open>this\<close>; joining the worker thread
  (lines 122-124) changes no member.
\<close>

definition shutdown :: "nat \<Rightarrow> process \<Rightarrow> fault + process" where
  "shutdown this w =
     (case processors w this of
        None \<Rightarrow> Inl DeadProcessorDereferenced
      | Some s \<Rightarrow>
          Inr (w\<lparr>m_handleMap := (m_handleMap w)(m_handle s := None),
                 processors := (processors w)(this \<mapsto> shutdown_locked s)\<rparr>))"

section \<open>What other threads can do while onDirective waits for the router\<close>

text \<open>
  \<open>m_onDirectiveMutex\<close> is held for the whole of onDirective, so no second onDirective
  runs beside it. Every other block of the file that holds \<open>m_mutex\<close> can: one step of
  this relation is one such block.
\<close>

inductive concurrent_step :: "DirectiveProcessor \<Rightarrow> DirectiveProcessor \<Rightarrow> bool" where
  step_setDialogRequestId: "concurrent_step s (setDialogRequestId dialogRequestId s)"
| step_shutdown: "concurrent_step s (shutdown_locked s)"
| step_onHandlingCompleted: "concurrent_step s (onHandlingCompleted messageId s)"
| step_onHandlingFailed: "concurrent_step s (onHandlingFailed messageId description s)"
| step_cancel_unlock:
    "m_cancelingQueue s \<noteq> [] \<Longrightarrow> concurrent_step s (s\<lparr>m_cancelingQueue := []\<rparr>)"
| step_handle_unlock:
    "m_handlingQueue s \<noteq> [] \<Longrightarrow> \<not> m_isHandlingDirective s \<Longrightarrow>
     concurrent_step s (s\<lparr>m_isHandlingDirective := True\<rparr>)"
| step_handle_relocked:
    "concurrent_step s (handleDirectiveLocked_relocked directive handled policy s)"

text \<open>
  The renewed lock of onDirective as the specification words it: the slot is cleared and
  the directive queued only if the slot still holds this very directive.
\<close>

definition onDirective_relocked_spec ::
  "AVSDirective \<Rightarrow> bool \<Rightarrow> DirectiveProcessor \<Rightarrow> DirectiveProcessor" where
  "onDirective_relocked_spec directive accepted s =
     (case m_directiveBeingPreHandled s of
        Some held \<Rightarrow>
          if same_directive held directive
          then
            (let s1 = s\<lparr>m_directiveBeingPreHandled := None\<rparr>
             in if accepted
                then notify_one (s1\<lparr>m_handlingQueue := m_handlingQueue s1 @ [directive]\<rparr>)
                else s1)
          else s
      | None \<Rightarrow> s)"

section \<open>Example directives and an example processor\<close>

text \<open>
  Three directives of one dialog \<open>D\<close>, and a processor of handle 1 in dialog \<open>D\<close> that tracks
  nothing. The concrete instances below are built from them.
\<close>

abbreviation M1 :: AVSDirective where
  "M1 \<equiv> \<lparr>object = 1, getMessageId = ''M1'', getDialogRequestId = ''D''\<rparr>"
abbreviation M2 :: AVSDirective where
  "M2 \<equiv> \<lparr>object = 2, getMessageId = ''M2'', getDialogRequestId = ''D''\<rparr>"
abbreviation M3 :: AVSDirective where
  "M3 \<equiv> \<lparr>object = 3, getMessageId = ''M3'', getDialogRequestId = ''D''\<rparr>"

abbreviation idle :: DirectiveProcessor where
  "idle \<equiv> \<lparr>m_handle = 1, m_isShuttingDown = False, m_dialogRequestId = ''D'',
     m_directiveBeingPreHandled = None, m_handlingQueue = [], m_cancelingQueue = [],
     m_isHandlingDirective = False, m_wakeProcessingLoop = 0\<rparr>"

text \<open>
  Example routers. Each returns its answer; accepting_completed, handled_completed and
  blocking_completed stand for a handler that reports completion through its
  DirectiveHandlerResult before the router call returns.
\<close>

definition accepting :: "AVSDirective \<Rightarrow> DirectiveHandlerResult \<Rightarrow> bool released" where
  "accepting directive result s = (True, s)"

definition accepting_completed ::
  "AVSDirective \<Rightarrow> DirectiveHandlerResult \<Rightarrow> bool released" where
  "accepting_completed directive result s = (True, onHandlingCompleted (m_messageId result) s)"

definition answering ::
  "bool \<Rightarrow> BlockingPolicy \<Rightarrow> AVSDirective \<Rightarrow> (bool \<times> BlockingPolicy option) released" where
  "answering handled policy directive s = ((handled, Some policy), s)"

definition handled_completed :: "AVSDirective \<Rightarrow> (bool \<times> BlockingPolicy option) released" where
  "handled_completed directive s = ((True, None), onHandlingCompleted (getMessageId directive) s)"

definition blocking_completed :: "AVSDirective \<Rightarrow> (bool \<times> BlockingPolicy option) released" where
  "blocking_completed directive s =
     ((True, Some BLOCKING), onHandlingCompleted (getMessageId directive) s)"

section \<open>Auxiliary facts\<close>

lemma queueAll_closed:
  "queueAllDirectivesForCancellationLocked s =
     s\<lparr>m_dialogRequestId := [],
       m_directiveBeingPreHandled := None,
       m_handlingQueue := [],
       m_cancelingQueue := m_cancelingQueue s @ m_handlingQueue s @
          (case m_directiveBeingPreHandled s of Some d \<Rightarrow> [d] | None \<Rightarrow> []),
       m_isHandlingDirective := False,
       m_wakeProcessingLoop := m_wakeProcessingLoop s +
          (if m_directiveBeingPreHandled s = None \<and> m_handlingQueue s = [] then 0 else 1)\<rparr>"
  by (cases "m_directiveBeingPreHandled s")
     (simp_all add: queueAllDirectivesForCancellationLocked_def notify_one_def Let_def)

lemma find_first_match:
  assumes "queue = pre @ x # post" "\<forall>e\<in>set pre. getMessageId e \<noteq> messageId"
    "getMessageId x = messageId"
  shows "findDirectiveInQueueLocked messageId queue = length pre"
  using assms by (simp add: findDirectiveInQueueLocked_def takeWhile_append2)

lemma find_no_match:
  "findDirectiveInQueueLocked messageId queue = length queue \<longleftrightarrow>
     (\<forall>e\<in>set queue. getMessageId e \<noteq> messageId)"
  unfolding findDirectiveInQueueLocked_def
  by (induction queue) auto

lemma removeFromHandlingQueueLocked_found:
  assumes "m_handlingQueue s = pre @ x # post" "\<forall>e\<in>set pre. getMessageId e \<noteq> messageId"
    "getMessageId x = messageId"
  shows "removeFromHandlingQueueLocked messageId s =
     (True, s\<lparr>m_handlingQueue := pre @ post,
              m_isHandlingDirective := (m_isHandlingDirective s \<and> pre \<noteq> []),
              m_wakeProcessingLoop :=
                (if pre @ post = [] then m_wakeProcessingLoop s else Suc (m_wakeProcessingLoop s))\<rparr>)"
proof -
  have it: "findDirectiveInQueueLocked messageId (m_handlingQueue s) = length pre"
    using assms by (rule find_first_match)
  show ?thesis
    unfolding removeFromHandlingQueueLocked_def it Let_def removeDirectiveFromQueueLocked_def
    using assms(1) by (cases s) (auto simp: notify_one_def)
qed

lemma removeFromHandlingQueueLocked_absent:
  assumes "\<forall>e\<in>set (m_handlingQueue s). getMessageId e \<noteq> messageId"
  shows "removeFromHandlingQueueLocked messageId s = (False, s)"
  using assms find_no_match [of messageId "m_handlingQueue s"]
  by (simp add: removeFromHandlingQueueLocked_def)

lemma removeFromCancelingQueueLocked_found:
  assumes "m_cancelingQueue s = pre @ x # post" "\<forall>e\<in>set pre. getMessageId e \<noteq> messageId"
    "getMessageId x = messageId"
  shows "removeFromCancelingQueueLocked messageId s =
     (True, s\<lparr>m_cancelingQueue := pre @ post,
              m_wakeProcessingLoop :=
                (if pre @ post = [] then m_wakeProcessingLoop s else Suc (m_wakeProcessingLoop s))\<rparr>)"
proof -
  have it: "findDirectiveInQueueLocked messageId (m_cancelingQueue s) = length pre"
    using assms by (rule find_first_match)
  show ?thesis
    unfolding removeFromCancelingQueueLocked_def it Let_def removeDirectiveFromQueueLocked_def
    using assms(1) by (cases s) (auto simp: notify_one_def)
qed

lemma removeFromCancelingQueueLocked_absent:
  assumes "\<forall>e\<in>set (m_cancelingQueue s). getMessageId e \<noteq> messageId"
  shows "removeFromCancelingQueueLocked messageId s = (False, s)"
  using assms find_no_match [of messageId "m_cancelingQueue s"]
  by (simp add: removeFromCancelingQueueLocked_def)

lemma first_match_split:
  assumes "\<exists>e\<in>set queue. getMessageId e = messageId"
  shows "\<exists>pre x post. queue = pre @ x # post \<and> (\<forall>e\<in>set pre. getMessageId e \<noteq> messageId) \<and>
           getMessageId x = messageId"
  using assms split_list_first_prop [of queue "\<lambda>e. getMessageId e = messageId"] by blast

lemma beingPreHandled_iff:
  "beingPreHandled messageId s \<longleftrightarrow>
     (\<exists>d. m_directiveBeingPreHandled s = Some d \<and> getMessageId d = messageId)"
  by (simp add: beingPreHandled_def split: option.split)

lemma handleDirectiveLocked_relocked_not_blocking:
  assumes "\<not> handled \<or> policy \<noteq> BLOCKING"
  shows "handleDirectiveLocked_relocked d handled policy s =
    (let popped = s\<lparr>m_isHandlingDirective := False,
                     m_handlingQueue :=
                       (case m_handlingQueue s of
                          front # rest \<Rightarrow> if same_directive front d then rest else front # rest
                        | [] \<Rightarrow> [])\<rparr>
     in if handled then popped else queueAllDirectivesForCancellationLocked popped)"
proof -
  have "BLOCKING \<noteq> policy \<or> \<not> handled" using assms by auto
  then show ?thesis
    by (cases s; cases "m_handlingQueue s")
       (auto simp: handleDirectiveLocked_relocked_def Let_def)
qed

lemma handleDirectiveLocked_relocked_blocking:
  "handleDirectiveLocked_relocked d True BLOCKING s = s"
  by (simp add: handleDirectiveLocked_relocked_def)

lemma shutdown_erases_handle:
  assumes "processors w this = Some s"
  shows "\<exists>w'. shutdown this w = Inr w' \<and> m_handleMap w' (m_handle s) = None"
  using assms by (simp add: shutdown_def)

lemma slot_removeFromHandlingQueueLocked:
  "m_directiveBeingPreHandled (snd (removeFromHandlingQueueLocked messageId s)) =
     m_directiveBeingPreHandled s"
  by (simp add: removeFromHandlingQueueLocked_def removeDirectiveFromQueueLocked_def
      notify_one_def Let_def)

lemma slot_removeFromCancelingQueueLocked:
  "m_directiveBeingPreHandled (snd (removeFromCancelingQueueLocked messageId s)) =
     m_directiveBeingPreHandled s"
  by (simp add: removeFromCancelingQueueLocked_def removeDirectiveFromQueueLocked_def
      notify_one_def Let_def)

lemma slot_queueAll:
  "m_directiveBeingPreHandled (queueAllDirectivesForCancellationLocked s) = None"
  by (simp add: queueAll_closed)

lemma slot_onHandlingCompleted:
  "m_directiveBeingPreHandled (onHandlingCompleted messageId s) = m_directiveBeingPreHandled s \<or>
   m_directiveBeingPreHandled (onHandlingCompleted messageId s) = None"
proof (cases "removeFromHandlingQueueLocked messageId s")
  case (Pair removed s1)
  then have "m_directiveBeingPreHandled s1 = m_directiveBeingPreHandled s"
    using slot_removeFromHandlingQueueLocked [of messageId s] by simp
  then show ?thesis
    using Pair slot_removeFromCancelingQueueLocked [of messageId s1]
    by (simp add: onHandlingCompleted_def)
qed

lemma slot_onHandlingFailed:
  "m_directiveBeingPreHandled (onHandlingFailed messageId description s) = m_directiveBeingPreHandled s \<or>
   m_directiveBeingPreHandled (onHandlingFailed messageId description s) = None"
proof (cases "removeFromHandlingQueueLocked messageId s")
  case (Pair removed s1)
  then have "m_directiveBeingPreHandled s1 = m_directiveBeingPreHandled s"
    using slot_removeFromHandlingQueueLocked [of messageId s] by simp
  then show ?thesis
    using Pair slot_removeFromCancelingQueueLocked [of messageId s1]
    by (simp add: onHandlingFailed_def slot_queueAll)
qed

lemma slot_handleDirectiveLocked_relocked:
  "m_directiveBeingPreHandled (handleDirectiveLocked_relocked d handled policy s) =
     m_directiveBeingPreHandled s \<or>
   m_directiveBeingPreHandled (handleDirectiveLocked_relocked d handled policy s) = None"
  by (simp add: handleDirectiveLocked_relocked_def slot_queueAll Let_def split: list.split)

lemma slot_concurrent_step:
  assumes "concurrent_step s t"
  shows "m_directiveBeingPreHandled t = m_directiveBeingPreHandled s \<or>
         m_directiveBeingPreHandled t = None"
  using assms
proof cases
  case (step_setDialogRequestId dialogRequestId)
  then show ?thesis by (simp add: setDialogRequestId_def slot_queueAll)
next
  case step_shutdown
  then show ?thesis by (simp add: shutdown_locked_def notify_one_def slot_queueAll)
next
  case (step_onHandlingCompleted messageId)
  then show ?thesis using slot_onHandlingCompleted by simp
next
  case (step_onHandlingFailed messageId description)
  then show ?thesis using slot_onHandlingFailed by simp
next
  case step_cancel_unlock
  then show ?thesis by simp
next
  case step_handle_unlock
  then show ?thesis by simp
next
  case (step_handle_relocked directive handled policy)
  then show ?thesis using slot_handleDirectiveLocked_relocked by simp
qed

lemma slot_concurrent_steps:
  assumes "concurrent_step\<^sup>*\<^sup>* s t"
  shows "m_directiveBeingPreHandled t = m_directiveBeingPreHandled s \<or>
         m_directiveBeingPreHandled t = None"
  using assms
proof (induction rule: rtranclp_induct)
  case base
  then show ?case by simp
next
  case (step y z)
  then show ?case using slot_concurrent_step [of y z] by auto
qed

section \<open>Cancel-all\<close>

text \<open>
  Claim C2. For every processor state, queueAllDirectivesForCancellationLocked leaves the
  dialog request id empty, the pre-handling slot empty, the handling queue empty and
  \<open>m_isHandlingDirective\<close> false; the new canceling queue is the old canceling queue, then
  the old handling queue, then the directive of the slot if there was one, each in its
  order. The handle and the shutdown flag are not touched.
\<close>

theorem cancel_all_effect:
  "m_dialogRequestId (queueAllDirectivesForCancellationLocked s) = [] \<and>
   m_directiveBeingPreHandled (queueAllDirectivesForCancellationLocked s) = None \<and>
   m_handlingQueue (queueAllDirectivesForCancellationLocked s) = [] \<and>
   m_cancelingQueue (queueAllDirectivesForCancellationLocked s) =
     m_cancelingQueue s @ m_handlingQueue s @
       (case m_directiveBeingPreHandled s of Some d \<Rightarrow> [d] | None \<Rightarrow> []) \<and>
   \<not> m_isHandlingDirective (queueAllDirectivesForCancellationLocked s) \<and>
   m_isShuttingDown (queueAllDirectivesForCancellationLocked s) = m_isShuttingDown s \<and>
   m_handle (queueAllDirectivesForCancellationLocked s) = m_handle s"
  by (simp add: queueAll_closed)

theorem cancel_all_effect_witness:
  "m_cancelingQueue (queueAllDirectivesForCancellationLocked
     (idle\<lparr>m_cancelingQueue := [M1], m_handlingQueue := [M2], m_directiveBeingPreHandled := Some M3\<rparr>))
   = [M1, M2, M3]"
  using cancel_all_effect [of "idle\<lparr>m_cancelingQueue := [M1], m_handlingQueue := [M2], m_directiveBeingPreHandled := Some M3\<rparr>"]
  by simp

text \<open>
  Claim C9, as stated: every cancel-all notifies \<open>m_wakeProcessingLoop\<close>, also when the
  slot and the handling queue are both empty. On the idle example processor the number of
  notifications does not grow.
\<close>

theorem cancel_all_silent_when_nothing_tracked:
  "m_directiveBeingPreHandled idle = None \<and> m_handlingQueue idle = [] \<and>
   m_wakeProcessingLoop (queueAllDirectivesForCancellationLocked idle) = m_wakeProcessingLoop idle"
  by (simp add: queueAllDirectivesForCancellationLocked_def)

text \<open>
  Claim C9, amended. Cancel-all notifies \<open>m_wakeProcessingLoop\<close> exactly once when the
  pre-handling slot is occupied or the handling queue is not empty, and not at all when
  both are empty (line 284 guards the notification of line 287).
\<close>

theorem cancel_all_notifies_iff_tracked:
  "m_wakeProcessingLoop (queueAllDirectivesForCancellationLocked s) =
     (if m_directiveBeingPreHandled s = None \<and> m_handlingQueue s = []
      then m_wakeProcessingLoop s else Suc (m_wakeProcessingLoop s))"
  by (simp add: queueAll_closed)

theorem cancel_all_notifies_iff_tracked_witness:
  "m_wakeProcessingLoop (queueAllDirectivesForCancellationLocked (idle\<lparr>m_handlingQueue := [M1]\<rparr>)) = 1 \<and>
   m_wakeProcessingLoop (queueAllDirectivesForCancellationLocked (idle\<lparr>m_directiveBeingPreHandled := Some M1\<rparr>)) = 1 \<and>
   m_wakeProcessingLoop (queueAllDirectivesForCancellationLocked idle) = 0"
  using cancel_all_notifies_iff_tracked [of "idle\<lparr>m_handlingQueue := [M1]\<rparr>"]
        cancel_all_notifies_iff_tracked [of "idle\<lparr>m_directiveBeingPreHandled := Some M1\<rparr>"]
        cancel_all_notifies_iff_tracked [of idle]
  by simp

section \<open>Dialog change\<close>

text \<open>
  Claim C8. setDialogRequestId with the current dialog request id changes nothing in the
  processor. With another id it is cancel-all followed by the assignment of the id: the
  slot and the handling queue are empty afterwards, the directives they held are at the
  end of the canceling queue, and the dialog request id is the new one.
\<close>

theorem setDialogRequestId_effect:
  "(dialogRequestId = m_dialogRequestId s \<longrightarrow> setDialogRequestId dialogRequestId s = s) \<and>
   (dialogRequestId \<noteq> m_dialogRequestId s \<longrightarrow>
      setDialogRequestId dialogRequestId s =
        (queueAllDirectivesForCancellationLocked s)\<lparr>m_dialogRequestId := dialogRequestId\<rparr> \<and>
      m_dialogRequestId (setDialogRequestId dialogRequestId s) = dialogRequestId \<and>
      m_directiveBeingPreHandled (setDialogRequestId dialogRequestId s) = None \<and>
      m_handlingQueue (setDialogRequestId dialogRequestId s) = [] \<and>
      m_cancelingQueue (setDialogRequestId dialogRequestId s) =
        m_cancelingQueue s @ m_handlingQueue s @
          (case m_directiveBeingPreHandled s of Some d \<Rightarrow> [d] | None \<Rightarrow> []) \<and>
      \<not> m_isHandlingDirective (setDialogRequestId dialogRequestId s))"
  by (simp add: setDialogRequestId_def queueAll_closed)

theorem setDialogRequestId_effect_witness:
  "setDialogRequestId ''D'' (idle\<lparr>m_handlingQueue := [M1, M2]\<rparr>) = idle\<lparr>m_handlingQueue := [M1, M2]\<rparr> \<and>
   setDialogRequestId ''D2''
     (idle\<lparr>m_handlingQueue := [M1, M2], m_isHandlingDirective := True,
           m_directiveBeingPreHandled := Some M3\<rparr>) =
   idle\<lparr>m_dialogRequestId := ''D2'', m_cancelingQueue := [M1, M2, M3], m_wakeProcessingLoop := 1\<rparr>"
  using setDialogRequestId_effect [of "''D''" "idle\<lparr>m_handlingQueue := [M1, M2]\<rparr>"]
    setDialogRequestId_effect [of "''D2''" "idle\<lparr>m_handlingQueue := [M1, M2], m_isHandlingDirective := True,
           m_directiveBeingPreHandled := Some M3\<rparr>"]
  by (simp add: queueAll_closed)

section \<open>Completion and failure reported by handlers\<close>

text \<open>
  Claim C5. onHandlingCompleted: when the pre-handling slot holds a directive with the
  message id, the slot is cleared and nothing else changes. Otherwise the first directive
  with the message id is erased from the handling queue, and \<open>m_isHandlingDirective\<close> is
  cleared when it was set and the erased directive was the head. Otherwise the first such
  directive is erased from the canceling queue. Otherwise the processor is unchanged.
  (An erase that leaves its queue non-empty notifies \<open>m_wakeProcessingLoop\<close>.)
  In no case is cancel-all run: the dialog request id stays, no directive enters the
  canceling queue, and the handling queue loses at most one directive.
\<close>

theorem onHandlingCompleted_cases:
  "((\<exists>d. m_directiveBeingPreHandled s = Some d \<and> getMessageId d = messageId) \<longrightarrow>
      onHandlingCompleted messageId s = s\<lparr>m_directiveBeingPreHandled := None\<rparr>) \<and>
   (\<not> (\<exists>d. m_directiveBeingPreHandled s = Some d \<and> getMessageId d = messageId) \<longrightarrow>
      m_handlingQueue s = pre @ x # post \<longrightarrow>
      (\<forall>e\<in>set pre. getMessageId e \<noteq> messageId) \<longrightarrow> getMessageId x = messageId \<longrightarrow>
      onHandlingCompleted messageId s =
        s\<lparr>m_handlingQueue := pre @ post,
          m_isHandlingDirective := (m_isHandlingDirective s \<and> pre \<noteq> []),
          m_wakeProcessingLoop :=
            (if pre @ post = [] then m_wakeProcessingLoop s else Suc (m_wakeProcessingLoop s))\<rparr>) \<and>
   (\<not> (\<exists>d. m_directiveBeingPreHandled s = Some d \<and> getMessageId d = messageId) \<longrightarrow>
      (\<forall>e\<in>set (m_handlingQueue s). getMessageId e \<noteq> messageId) \<longrightarrow>
      m_cancelingQueue s = pre' @ x' # post' \<longrightarrow>
      (\<forall>e\<in>set pre'. getMessageId e \<noteq> messageId) \<longrightarrow> getMessageId x' = messageId \<longrightarrow>
      onHandlingCompleted messageId s =
        s\<lparr>m_cancelingQueue := pre' @ post',
          m_wakeProcessingLoop :=
            (if pre' @ post' = [] then m_wakeProcessingLoop s else Suc (m_wakeProcessingLoop s))\<rparr>) \<and>
   (\<not> (\<exists>d. m_directiveBeingPreHandled s = Some d \<and> getMessageId d = messageId) \<longrightarrow>
      (\<forall>e\<in>set (m_handlingQueue s). getMessageId e \<noteq> messageId) \<longrightarrow>
      (\<forall>e\<in>set (m_cancelingQueue s). getMessageId e \<noteq> messageId) \<longrightarrow>
      onHandlingCompleted messageId s = s) \<and>
   m_dialogRequestId (onHandlingCompleted messageId s) = m_dialogRequestId s \<and>
   set (m_cancelingQueue (onHandlingCompleted messageId s)) \<subseteq> set (m_cancelingQueue s) \<and>
   length (m_handlingQueue s) \<le> Suc (length (m_handlingQueue (onHandlingCompleted messageId s)))"
proof -
  let ?slot = "\<exists>d. m_directiveBeingPreHandled s = Some d \<and> getMessageId d = messageId"
  have slot: "?slot \<Longrightarrow> onHandlingCompleted messageId s = s\<lparr>m_directiveBeingPreHandled := None\<rparr>"
    by (simp add: onHandlingCompleted_def beingPreHandled_iff)
  have handling: "onHandlingCompleted messageId s =
        s\<lparr>m_handlingQueue := p @ q,
          m_isHandlingDirective := (m_isHandlingDirective s \<and> p \<noteq> []),
          m_wakeProcessingLoop :=
            (if p @ q = [] then m_wakeProcessingLoop s else Suc (m_wakeProcessingLoop s))\<rparr>"
    if "\<not> ?slot" "m_handlingQueue s = p @ y # q"
       "\<forall>e\<in>set p. getMessageId e \<noteq> messageId" "getMessageId y = messageId" for p y q
    using that(1) removeFromHandlingQueueLocked_found [OF that(2,3,4)]
    by (simp add: onHandlingCompleted_def flip: beingPreHandled_iff)
  have canceling: "onHandlingCompleted messageId s =
        s\<lparr>m_cancelingQueue := p @ q,
          m_wakeProcessingLoop :=
            (if p @ q = [] then m_wakeProcessingLoop s else Suc (m_wakeProcessingLoop s))\<rparr>"
    if "\<not> ?slot" "\<forall>e\<in>set (m_handlingQueue s). getMessageId e \<noteq> messageId"
       "m_cancelingQueue s = p @ y # q"
       "\<forall>e\<in>set p. getMessageId e \<noteq> messageId" "getMessageId y = messageId" for p y q
    using that(1) removeFromHandlingQueueLocked_absent [OF that(2)]
      removeFromCancelingQueueLocked_found [OF that(3,4,5)]
    by (simp add: onHandlingCompleted_def flip: beingPreHandled_iff)
  have nowhere: "onHandlingCompleted messageId s = s"
    if "\<not> ?slot" "\<forall>e\<in>set (m_handlingQueue s). getMessageId e \<noteq> messageId"
       "\<forall>e\<in>set (m_cancelingQueue s). getMessageId e \<noteq> messageId"
    using that(1) removeFromHandlingQueueLocked_absent [OF that(2)]
      removeFromCancelingQueueLocked_absent [OF that(3)]
    by (simp add: onHandlingCompleted_def flip: beingPreHandled_iff)
  have quiet: "m_dialogRequestId (onHandlingCompleted messageId s) = m_dialogRequestId s \<and>
      set (m_cancelingQueue (onHandlingCompleted messageId s)) \<subseteq> set (m_cancelingQueue s) \<and>
      length (m_handlingQueue s) \<le> Suc (length (m_handlingQueue (onHandlingCompleted messageId s)))"
  proof (cases ?slot)
    case True
    then show ?thesis using slot by simp
  next
    case ns: False
    show ?thesis
    proof (cases "\<exists>e\<in>set (m_handlingQueue s). getMessageId e = messageId")
      case True
      then obtain p y q where "m_handlingQueue s = p @ y # q"
          "\<forall>e\<in>set p. getMessageId e \<noteq> messageId" "getMessageId y = messageId"
        using first_match_split by blast
      then show ?thesis using handling [OF ns] by simp
    next
      case nh: False
      show ?thesis
      proof (cases "\<exists>e\<in>set (m_cancelingQueue s). getMessageId e = messageId")
        case True
        then obtain p y q where "m_cancelingQueue s = p @ y # q"
            "\<forall>e\<in>set p. getMessageId e \<noteq> messageId" "getMessageId y = messageId"
          using first_match_split by blast
        then show ?thesis using canceling [OF ns] nh by auto
      next
        case False
        then show ?thesis using nowhere [OF ns] nh by simp
      qed
    qed
  qed
  show ?thesis using slot handling canceling nowhere quiet by blast
qed

theorem onHandlingCompleted_cases_witness:
  "onHandlingCompleted ''M1''
     (idle\<lparr>m_handlingQueue := [M1, M2, M3], m_isHandlingDirective := True\<rparr>) =
   idle\<lparr>m_handlingQueue := [M2, M3], m_wakeProcessingLoop := 1\<rparr> \<and>
   onHandlingCompleted ''M2'' (idle\<lparr>m_directiveBeingPreHandled := Some M2, m_handlingQueue := [M1]\<rparr>) =
   idle\<lparr>m_handlingQueue := [M1]\<rparr> \<and>
   onHandlingCompleted ''M2'' (idle\<lparr>m_handlingQueue := [M3], m_cancelingQueue := [M1, M2]\<rparr>) =
   idle\<lparr>m_handlingQueue := [M3], m_cancelingQueue := [M1], m_wakeProcessingLoop := 1\<rparr> \<and>
   onHandlingCompleted ''M2'' (idle\<lparr>m_handlingQueue := [M3], m_cancelingQueue := [M1]\<rparr>) =
   idle\<lparr>m_handlingQueue := [M3], m_cancelingQueue := [M1]\<rparr>"
  using
    onHandlingCompleted_cases [of "idle\<lparr>m_handlingQueue := [M1, M2, M3], m_isHandlingDirective := True\<rparr>"
       "''M1''" "[]" M1 "[M2, M3]"]
    onHandlingCompleted_cases [of "idle\<lparr>m_directiveBeingPreHandled := Some M2, m_handlingQueue := [M1]\<rparr>"
       "''M2''"]
    onHandlingCompleted_cases [of "idle\<lparr>m_handlingQueue := [M3], m_cancelingQueue := [M1, M2]\<rparr>"
       "''M2''" _ _ _ "[M1]" M2 "[]"]
    onHandlingCompleted_cases [of "idle\<lparr>m_handlingQueue := [M3], m_cancelingQueue := [M1]\<rparr>"
       "''M2''"]
  by simp

text \<open>
  Claim C4. onHandlingFailed: when the pre-handling slot holds a directive with the message
  id, the slot is cleared and cancel-all is run. Otherwise, when the first directive with
  the message id is erased from the handling queue (clearing \<open>m_isHandlingDirective\<close> when
  it was set and the erased directive was the head), cancel-all is run on the result.
  Otherwise, when such a directive is erased from the canceling queue, nothing else
  happens: the dialog request id and the handling queue stay as they are. Otherwise the
  processor is unchanged.
\<close>

theorem onHandlingFailed_cases:
  "((\<exists>d. m_directiveBeingPreHandled s = Some d \<and> getMessageId d = messageId) \<longrightarrow>
      onHandlingFailed messageId description s =
        queueAllDirectivesForCancellationLocked (s\<lparr>m_directiveBeingPreHandled := None\<rparr>)) \<and>
   (\<not> (\<exists>d. m_directiveBeingPreHandled s = Some d \<and> getMessageId d = messageId) \<longrightarrow>
      m_handlingQueue s = pre @ x # post \<longrightarrow>
      (\<forall>e\<in>set pre. getMessageId e \<noteq> messageId) \<longrightarrow> getMessageId x = messageId \<longrightarrow>
      onHandlingFailed messageId description s =
        queueAllDirectivesForCancellationLocked
          (s\<lparr>m_handlingQueue := pre @ post,
             m_isHandlingDirective := (m_isHandlingDirective s \<and> pre \<noteq> []),
             m_wakeProcessingLoop :=
               (if pre @ post = [] then m_wakeProcessingLoop s
                else Suc (m_wakeProcessingLoop s))\<rparr>)) \<and>
   (\<not> (\<exists>d. m_directiveBeingPreHandled s = Some d \<and> getMessageId d = messageId) \<longrightarrow>
      (\<forall>e\<in>set (m_handlingQueue s). getMessageId e \<noteq> messageId) \<longrightarrow>
      m_cancelingQueue s = pre' @ x' # post' \<longrightarrow>
      (\<forall>e\<in>set pre'. getMessageId e \<noteq> messageId) \<longrightarrow> getMessageId x' = messageId \<longrightarrow>
      onHandlingFailed messageId description s =
        s\<lparr>m_cancelingQueue := pre' @ post',
          m_wakeProcessingLoop :=
            (if pre' @ post' = [] then m_wakeProcessingLoop s
             else Suc (m_wakeProcessingLoop s))\<rparr>) \<and>
   (\<not> (\<exists>d. m_directiveBeingPreHandled s = Some d \<and> getMessageId d = messageId) \<longrightarrow>
      (\<forall>e\<in>set (m_handlingQueue s). getMessageId e \<noteq> messageId) \<longrightarrow>
      (\<forall>e\<in>set (m_cancelingQueue s). getMessageId e \<noteq> messageId) \<longrightarrow>
      onHandlingFailed messageId description s = s)"
proof -
  let ?slot = "\<exists>d. m_directiveBeingPreHandled s = Some d \<and> getMessageId d = messageId"
  have slot: "?slot \<Longrightarrow> onHandlingFailed messageId description s =
      queueAllDirectivesForCancellationLocked (s\<lparr>m_directiveBeingPreHandled := None\<rparr>)"
    by (simp add: onHandlingFailed_def beingPreHandled_iff)
  have handling: "onHandlingFailed messageId description s =
        queueAllDirectivesForCancellationLocked
          (s\<lparr>m_handlingQueue := p @ q,
             m_isHandlingDirective := (m_isHandlingDirective s \<and> p \<noteq> []),
             m_wakeProcessingLoop :=
               (if p @ q = [] then m_wakeProcessingLoop s else Suc (m_wakeProcessingLoop s))\<rparr>)"
    if "\<not> ?slot" "m_handlingQueue s = p @ y # q"
       "\<forall>e\<in>set p. getMessageId e \<noteq> messageId" "getMessageId y = messageId" for p y q
    using that(1) removeFromHandlingQueueLocked_found [OF that(2,3,4)]
    by (simp add: onHandlingFailed_def flip: beingPreHandled_iff)
  have canceling: "onHandlingFailed messageId description s =
        s\<lparr>m_cancelingQueue := p @ q,
          m_wakeProcessingLoop :=
            (if p @ q = [] then m_wakeProcessingLoop s else Suc (m_wakeProcessingLoop s))\<rparr>"
    if "\<not> ?slot" "\<forall>e\<in>set (m_handlingQueue s). getMessageId e \<noteq> messageId"
       "m_cancelingQueue s = p @ y # q"
       "\<forall>e\<in>set p. getMessageId e \<noteq> messageId" "getMessageId y = messageId" for p y q
    using that(1) removeFromHandlingQueueLocked_absent [OF that(2)]
      removeFromCancelingQueueLocked_found [OF that(3,4,5)]
    by (simp add: onHandlingFailed_def flip: beingPreHandled_iff)
  have nowhere: "onHandlingFailed messageId description s = s"
    if "\<not> ?slot" "\<forall>e\<in>set (m_handlingQueue s). getMessageId e \<noteq> messageId"
       "\<forall>e\<in>set (m_cancelingQueue s). getMessageId e \<noteq> messageId"
    using that(1) removeFromHandlingQueueLocked_absent [OF that(2)]
      removeFromCancelingQueueLocked_absent [OF that(3)]
    by (simp add: onHandlingFailed_def flip: beingPreHandled_iff)
  show ?thesis using slot handling canceling nowhere by blast
qed

theorem onHandlingFailed_cases_witness:
  "onHandlingFailed ''M1'' ''x''
     (idle\<lparr>m_handlingQueue := [M1, M2, M3], m_isHandlingDirective := True\<rparr>) =
   idle\<lparr>m_dialogRequestId := [], m_cancelingQueue := [M2, M3], m_wakeProcessingLoop := 2\<rparr> \<and>
   onHandlingFailed ''M2'' ''x'' (idle\<lparr>m_directiveBeingPreHandled := Some M2, m_handlingQueue := [M1]\<rparr>) =
   idle\<lparr>m_dialogRequestId := [], m_cancelingQueue := [M1], m_wakeProcessingLoop := 1\<rparr> \<and>
   onHandlingFailed ''M2'' ''x'' (idle\<lparr>m_handlingQueue := [M3], m_cancelingQueue := [M1, M2]\<rparr>) =
   idle\<lparr>m_handlingQueue := [M3], m_cancelingQueue := [M1], m_wakeProcessingLoop := 1\<rparr> \<and>
   onHandlingFailed ''M2'' ''x'' (idle\<lparr>m_handlingQueue := [M3], m_cancelingQueue := [M1]\<rparr>) =
   idle\<lparr>m_handlingQueue := [M3], m_cancelingQueue := [M1]\<rparr>"
  using
    onHandlingFailed_cases [of "idle\<lparr>m_handlingQueue := [M1, M2, M3], m_isHandlingDirective := True\<rparr>"
       "''M1''" "''x''" "[]" M1 "[M2, M3]"]
    onHandlingFailed_cases [of "idle\<lparr>m_directiveBeingPreHandled := Some M2, m_handlingQueue := [M1]\<rparr>"
       "''M2''" "''x''"]
    onHandlingFailed_cases [of "idle\<lparr>m_handlingQueue := [M3], m_cancelingQueue := [M1, M2]\<rparr>"
       "''M2''" "''x''" _ _ _ "[M1]" M2 "[]"]
    onHandlingFailed_cases [of "idle\<lparr>m_handlingQueue := [M3], m_cancelingQueue := [M1]\<rparr>"
       "''M2''" "''x''"]
  by (simp add: queueAll_closed)

section \<open>Ingest\<close>

text \<open>
  Claim C7. The early returns of onDirective, in the order of its tests (lines 75, 81, 86):
  a null directive returns false; a non-null directive while \<open>m_isShuttingDown\<close> is set
  returns false; a non-null directive that passed that test and whose dialog request id
  differs from the current one returns true. In all three cases the processor is unchanged
  and the router is not called, whatever the router is.
\<close>

theorem onDirective_early_returns:
  "onDirective preHandleDirective None s = (False, s, []) \<and>
   (m_isShuttingDown s \<longrightarrow> onDirective preHandleDirective (Some d) s = (False, s, [])) \<and>
   (\<not> m_isShuttingDown s \<longrightarrow> getDialogRequestId d \<noteq> m_dialogRequestId s \<longrightarrow>
      onDirective preHandleDirective (Some d) s = (True, s, []))"
  by (simp add: onDirective_def)

theorem onDirective_early_returns_witness:
  "onDirective accepting None idle = (False, idle, []) \<and>
   onDirective accepting (Some M1) (idle\<lparr>m_isShuttingDown := True\<rparr>) =
     (False, idle\<lparr>m_isShuttingDown := True\<rparr>, []) \<and>
   onDirective accepting (Some M1) (idle\<lparr>m_isShuttingDown := True, m_dialogRequestId := []\<rparr>) =
     (False, idle\<lparr>m_isShuttingDown := True, m_dialogRequestId := []\<rparr>, []) \<and>
   onDirective accepting (Some M1) (idle\<lparr>m_dialogRequestId := ''D2''\<rparr>) =
     (True, idle\<lparr>m_dialogRequestId := ''D2''\<rparr>, [])"
  using onDirective_early_returns [of accepting idle M1]
    onDirective_early_returns [of accepting "idle\<lparr>m_isShuttingDown := True\<rparr>" M1]
    onDirective_early_returns
      [of accepting "idle\<lparr>m_isShuttingDown := True, m_dialogRequestId := []\<rparr>" M1]
    onDirective_early_returns [of accepting "idle\<lparr>m_dialogRequestId := ''D2''\<rparr>" M1]
  by (simp add: accepting_def)

text \<open>
  Claim C3. For a non-null directive \<open>d\<close> of the current dialog on a processor that is not
  shutting down, onDirective calls the router's preHandleDirective once, with \<open>d\<close> and a
  result object holding the processor's handle and the message id of \<open>d\<close>, on the
  processor with \<open>d\<close> in the pre-handling slot. Let the call return \<open>handled\<close> and let
  \<open>s2\<close> be the processor when the lock is held again. If the slot of \<open>s2\<close> is occupied,
  it is cleared, and \<open>d\<close> is appended to the handling queue (with a notification) exactly
  when \<open>handled\<close>; if the slot of \<open>s2\<close> is empty, \<open>s2\<close> is left as it is. onDirective
  returns \<open>handled\<close>.
\<close>

theorem onDirective_pre_handled:
  assumes "\<not> m_isShuttingDown s" and "getDialogRequestId d = m_dialogRequestId s"
    and "result = \<lparr>m_processorHandle = m_handle s, m_messageId = getMessageId d\<rparr>"
    and "preHandleDirective d result (s\<lparr>m_directiveBeingPreHandled := Some d\<rparr>) = (handled, s2)"
  shows "\<exists>s'. onDirective preHandleDirective (Some d) s = (handled, s', [PreHandleDirective d result]) \<and>
    (m_directiveBeingPreHandled s2 \<noteq> None \<longrightarrow>
       m_directiveBeingPreHandled s' = None \<and>
       (handled \<longrightarrow>
          s' = s2\<lparr>m_directiveBeingPreHandled := None,
                  m_handlingQueue := m_handlingQueue s2 @ [d],
                  m_wakeProcessingLoop := Suc (m_wakeProcessingLoop s2)\<rparr>) \<and>
       (\<not> handled \<longrightarrow> s' = s2\<lparr>m_directiveBeingPreHandled := None\<rparr>)) \<and>
    (m_directiveBeingPreHandled s2 = None \<longrightarrow> s' = s2)"
  using assms
  by (auto simp: onDirective_def newDirectiveHandlerResult_def onDirective_relocked_def
      notify_one_def Let_def)

theorem onDirective_pre_handled_witness:
  "onDirective accepting (Some M2) (idle\<lparr>m_handlingQueue := [M1]\<rparr>) =
     (True, idle\<lparr>m_handlingQueue := [M1, M2], m_wakeProcessingLoop := 1\<rparr>,
      [PreHandleDirective M2 \<lparr>m_processorHandle = 1, m_messageId = ''M2''\<rparr>]) \<and>
   onDirective accepting_completed
       (Some M2) (idle\<lparr>m_handlingQueue := [M1]\<rparr>) =
     (True, idle\<lparr>m_handlingQueue := [M1]\<rparr>,
      [PreHandleDirective M2 \<lparr>m_processorHandle = 1, m_messageId = ''M2''\<rparr>])"
  using
    onDirective_pre_handled [of "idle\<lparr>m_handlingQueue := [M1]\<rparr>" M2
      "\<lparr>m_processorHandle = 1, m_messageId = ''M2''\<rparr>" accepting True
      "idle\<lparr>m_handlingQueue := [M1], m_directiveBeingPreHandled := Some M2\<rparr>"]
    onDirective_pre_handled [of "idle\<lparr>m_handlingQueue := [M1]\<rparr>" M2
      "\<lparr>m_processorHandle = 1, m_messageId = ''M2''\<rparr>"
      accepting_completed True
      "idle\<lparr>m_handlingQueue := [M1]\<rparr>"]
  by (simp add: accepting_def accepting_completed_def onHandlingCompleted_def beingPreHandled_def)

section \<open>The worker's dispatch\<close>

text \<open>
  Claim C1, as stated: on every return of handleDirective with \<open>handled\<close> true and the
  policy BLOCKING, \<open>m_isHandlingDirective\<close> is true and the dispatched directive is at the
  head of the handling queue. The lock is released during the call (line 257). When the
  handler reports completion of \<open>M1\<close> before handleDirective returns true with BLOCKING,
  onHandlingCompleted has cleared the flag and erased \<open>M1\<close> (lines 187-190), and lines
  261-274 change nothing: after the dispatch the flag is false and the head is \<open>M2\<close>.
\<close>

theorem handleDirectiveLocked_completed_during_blocking_handle:
  "blocking_completed M1 (idle\<lparr>m_handlingQueue := [M1, M2], m_isHandlingDirective := True\<rparr>) =
     ((True, Some BLOCKING), idle\<lparr>m_handlingQueue := [M2], m_wakeProcessingLoop := 1\<rparr>) \<and>
   handleDirectiveLocked blocking_completed (idle\<lparr>m_handlingQueue := [M1, M2]\<rparr>) =
     (True, idle\<lparr>m_handlingQueue := [M2], m_wakeProcessingLoop := 1\<rparr>, [HandleDirective M1]) \<and>
   \<not> m_isHandlingDirective (idle\<lparr>m_handlingQueue := [M2], m_wakeProcessingLoop := 1\<rparr>) \<and>
   m_handlingQueue (idle\<lparr>m_handlingQueue := [M2], m_wakeProcessingLoop := 1\<rparr>) = [M2]"
  using removeFromHandlingQueueLocked_found
      [of "idle\<lparr>m_handlingQueue := [M1, M2], m_isHandlingDirective := True\<rparr>" "[]" M1 "[M2]" "''M1''"]
  by (simp add: handleDirectiveLocked_def blocking_completed_def handleDirectiveLocked_relocked_def
      onHandlingCompleted_def beingPreHandled_def)

text \<open>
  Claim C1, amended. Let the head \<open>d\<close> of the handling queue be dispatched: handleDirective
  is called once, returns \<open>handled\<close> and a policy (NONE when the router writes none), and
  \<open>s2\<close> is the processor when the lock is held again. If \<open>handled\<close> is false or the policy
  is not BLOCKING, \<open>m_isHandlingDirective\<close> is false afterwards and the head of the handling
  queue of \<open>s2\<close> is popped exactly when it is still the object \<open>d\<close>; if \<open>handled\<close> is false,
  cancel-all is then run on that state. If \<open>handled\<close> is true and the policy is BLOCKING,
  the processor is left exactly as \<open>s2\<close>; when no other thread changed the processor
  during the call, \<open>m_isHandlingDirective\<close> is therefore true and \<open>d\<close> is at the head.
\<close>

theorem handleDirectiveLocked_after_handle:
  assumes "m_handlingQueue s = d # queued" and "\<not> m_isHandlingDirective s"
    and "handleDirective d (s\<lparr>m_isHandlingDirective := True\<rparr>) = ((handled, written), s2)"
    and "policy = (case written of Some p \<Rightarrow> p | None \<Rightarrow> NONE)"
  shows "\<exists>s'. handleDirectiveLocked handleDirective s = (True, s', [HandleDirective d]) \<and>
    (\<not> handled \<or> policy \<noteq> BLOCKING \<longrightarrow>
       \<not> m_isHandlingDirective s' \<and>
       (let popped = s2\<lparr>m_isHandlingDirective := False,
                        m_handlingQueue :=
                          (case m_handlingQueue s2 of
                             front # rest \<Rightarrow> if same_directive front d then rest else front # rest
                           | [] \<Rightarrow> [])\<rparr>
        in s' = (if handled then popped else queueAllDirectivesForCancellationLocked popped))) \<and>
    (handled \<and> policy = BLOCKING \<longrightarrow>
       s' = s2 \<and>
       (s2 = s\<lparr>m_isHandlingDirective := True\<rparr> \<longrightarrow>
          m_isHandlingDirective s' \<and> m_handlingQueue s' = d # queued))"
proof -
  let ?s' = "handleDirectiveLocked_relocked d handled policy s2"
  have run: "handleDirectiveLocked handleDirective s = (True, ?s', [HandleDirective d])"
    using assms by (simp add: handleDirectiveLocked_def)
  have a: "\<not> m_isHandlingDirective ?s' \<and>
       (let popped = s2\<lparr>m_isHandlingDirective := False,
                        m_handlingQueue :=
                          (case m_handlingQueue s2 of
                             front # rest \<Rightarrow> if same_directive front d then rest else front # rest
                           | [] \<Rightarrow> [])\<rparr>
        in ?s' = (if handled then popped else queueAllDirectivesForCancellationLocked popped))"
    if "\<not> handled \<or> policy \<noteq> BLOCKING"
    using handleDirectiveLocked_relocked_not_blocking [OF that, of d s2]
    by (simp add: Let_def queueAll_closed)
  have b: "?s' = s2 \<and>
       (s2 = s\<lparr>m_isHandlingDirective := True\<rparr> \<longrightarrow>
          m_isHandlingDirective ?s' \<and> m_handlingQueue ?s' = d # queued)"
    if "handled \<and> policy = BLOCKING"
    using that assms(1) by (auto simp: handleDirectiveLocked_relocked_blocking)
  show ?thesis using run a b by blast
qed

theorem handleDirectiveLocked_after_handle_witness:
  "handleDirectiveLocked (answering True BLOCKING) (idle\<lparr>m_handlingQueue := [M1, M2]\<rparr>) =
     (True, idle\<lparr>m_handlingQueue := [M1, M2], m_isHandlingDirective := True\<rparr>, [HandleDirective M1]) \<and>
   handleDirectiveLocked (answering True NON_BLOCKING) (idle\<lparr>m_handlingQueue := [M1, M2]\<rparr>) =
     (True, idle\<lparr>m_handlingQueue := [M2]\<rparr>, [HandleDirective M1]) \<and>
   handleDirectiveLocked (answering False BLOCKING) (idle\<lparr>m_handlingQueue := [M1, M2]\<rparr>) =
     (True, idle\<lparr>m_dialogRequestId := [], m_cancelingQueue := [M2], m_wakeProcessingLoop := 1\<rparr>,
      [HandleDirective M1]) \<and>
   handleDirectiveLocked
       handled_completed
       (idle\<lparr>m_handlingQueue := [M1, M2]\<rparr>) =
     (True, idle\<lparr>m_handlingQueue := [M2], m_wakeProcessingLoop := 1\<rparr>, [HandleDirective M1])"
  using
    handleDirectiveLocked_after_handle [of "idle\<lparr>m_handlingQueue := [M1, M2]\<rparr>" M1 "[M2]"
      "answering True BLOCKING" True "Some BLOCKING"
      "idle\<lparr>m_handlingQueue := [M1, M2], m_isHandlingDirective := True\<rparr>" BLOCKING]
    handleDirectiveLocked_after_handle [of "idle\<lparr>m_handlingQueue := [M1, M2]\<rparr>" M1 "[M2]"
      "answering True NON_BLOCKING" True "Some NON_BLOCKING"
      "idle\<lparr>m_handlingQueue := [M1, M2], m_isHandlingDirective := True\<rparr>" NON_BLOCKING]
    handleDirectiveLocked_after_handle [of "idle\<lparr>m_handlingQueue := [M1, M2]\<rparr>" M1 "[M2]"
      "answering False BLOCKING" False "Some BLOCKING"
      "idle\<lparr>m_handlingQueue := [M1, M2], m_isHandlingDirective := True\<rparr>" BLOCKING]
    handleDirectiveLocked_after_handle [of "idle\<lparr>m_handlingQueue := [M1, M2]\<rparr>" M1 "[M2]"
      handled_completed True None
      "idle\<lparr>m_handlingQueue := [M2], m_wakeProcessingLoop := 1\<rparr>" NONE]
    removeFromHandlingQueueLocked_found
      [of "idle\<lparr>m_handlingQueue := [M1, M2], m_isHandlingDirective := True\<rparr>" "[]" M1 "[M2]" "''M1''"]
  by (simp add: answering_def handled_completed_def same_directive_def queueAll_closed
      onHandlingCompleted_def beingPreHandled_def)

section \<open>Handler results after shutdown\<close>

text \<open>
  Claim C6. When the handle of a DirectiveHandlerResult is not in \<open>m_handleMap\<close>,
  setCompleted and setFailed return normally and leave the whole process state as it
  is; no processor is looked at, so it does not matter whether the processor object still
  exists.
\<close>

theorem result_without_processor_is_ignored:
  assumes "m_handleMap w (m_processorHandle r) = None"
  shows "setCompleted r w = Inr w \<and> setFailed r description w = Inr w"
  using assms by (simp add: setCompleted_def setFailed_def)

theorem result_without_processor_is_ignored_witness:
  "shutdown 7 \<lparr>m_nextProcessorHandle = 1, m_handleMap = [1 \<mapsto> 7], processors = [7 \<mapsto> idle]\<rparr> =
     Inr \<lparr>m_nextProcessorHandle = 1, m_handleMap = Map.empty,
          processors = [7 \<mapsto> shutdown_locked idle]\<rparr> \<and>
   setCompleted \<lparr>m_processorHandle = 1, m_messageId = ''M1''\<rparr>
     \<lparr>m_nextProcessorHandle = 1, m_handleMap = Map.empty,
      processors = [7 \<mapsto> shutdown_locked idle]\<rparr> =
     Inr \<lparr>m_nextProcessorHandle = 1, m_handleMap = Map.empty,
          processors = [7 \<mapsto> shutdown_locked idle]\<rparr> \<and>
   setFailed \<lparr>m_processorHandle = 1, m_messageId = ''M1''\<rparr> ''x''
     \<lparr>m_nextProcessorHandle = 1, m_handleMap = Map.empty, processors = Map.empty\<rparr> =
     Inr \<lparr>m_nextProcessorHandle = 1, m_handleMap = Map.empty, processors = Map.empty\<rparr>"
  using
    result_without_processor_is_ignored
      [of "\<lparr>m_nextProcessorHandle = 1, m_handleMap = Map.empty,
            processors = [7 \<mapsto> shutdown_locked idle]\<rparr>"
          "\<lparr>m_processorHandle = 1, m_messageId = ''M1''\<rparr>" "''x''"]
    result_without_processor_is_ignored
      [of "\<lparr>m_nextProcessorHandle = 1, m_handleMap = Map.empty, processors = Map.empty\<rparr>"
          "\<lparr>m_processorHandle = 1, m_messageId = ''M1''\<rparr>" "''x''"]
  by (simp add: shutdown_def)

section \<open>Who writes the pre-handling slot\<close>

text \<open>
  Claim C10. Every block that can run under \<open>m_mutex\<close> beside an onDirective
  (setDialogRequestId, shutdown, onHandlingCompleted, onHandlingFailed, the worker's
  processCancelingQueueLocked and handleDirectiveLocked) leaves the pre-handling slot as
  it is or empties it. Hence, when onDirective has put \<open>d\<close> in the slot and any number of
  such blocks have run, a slot that is not empty holds \<open>d\<close>, and the code's test for a
  non-empty slot does the same as the specification's test that the slot still holds this
  directive.
\<close>

theorem slot_assigned_by_onDirective_only:
  "(concurrent_step s t \<longrightarrow>
      m_directiveBeingPreHandled t = m_directiveBeingPreHandled s \<or>
      m_directiveBeingPreHandled t = None) \<and>
   (concurrent_step\<^sup>*\<^sup>* (s\<lparr>m_directiveBeingPreHandled := Some d\<rparr>) t \<longrightarrow>
      (m_directiveBeingPreHandled t \<noteq> None \<longrightarrow> m_directiveBeingPreHandled t = Some d) \<and>
      onDirective_relocked d handled t = onDirective_relocked_spec d handled t)"
proof -
  have "onDirective_relocked d handled t = onDirective_relocked_spec d handled t \<and>
      (m_directiveBeingPreHandled t \<noteq> None \<longrightarrow> m_directiveBeingPreHandled t = Some d)"
    if "concurrent_step\<^sup>*\<^sup>* (s\<lparr>m_directiveBeingPreHandled := Some d\<rparr>) t"
  proof -
    have "m_directiveBeingPreHandled t = Some d \<or> m_directiveBeingPreHandled t = None"
      using slot_concurrent_steps [OF that] by simp
    then show ?thesis
      by (auto simp: onDirective_relocked_def onDirective_relocked_spec_def same_directive_def)
  qed
  then show ?thesis using slot_concurrent_step [of s t] by blast
qed

theorem slot_assigned_by_onDirective_only_witness:
  "concurrent_step (idle\<lparr>m_directiveBeingPreHandled := Some M1\<rparr>)
     (onHandlingFailed ''M1'' ''x'' (idle\<lparr>m_directiveBeingPreHandled := Some M1\<rparr>)) \<and>
   m_directiveBeingPreHandled
     (onHandlingFailed ''M1'' ''x'' (idle\<lparr>m_directiveBeingPreHandled := Some M1\<rparr>)) = None \<and>
   concurrent_step\<^sup>*\<^sup>* (idle\<lparr>m_directiveBeingPreHandled := Some M2\<rparr>)
     (onHandlingCompleted ''M1'' (idle\<lparr>m_directiveBeingPreHandled := Some M2\<rparr>)) \<and>
   m_directiveBeingPreHandled
     (onHandlingCompleted ''M1'' (idle\<lparr>m_directiveBeingPreHandled := Some M2\<rparr>)) = Some M2 \<and>
   onDirective_relocked M2 True (onHandlingCompleted ''M1'' (idle\<lparr>m_directiveBeingPreHandled := Some M2\<rparr>)) =
   onDirective_relocked_spec M2 True (onHandlingCompleted ''M1'' (idle\<lparr>m_directiveBeingPreHandled := Some M2\<rparr>))"
proof -
  have one: "concurrent_step (idle\<lparr>m_directiveBeingPreHandled := Some M1\<rparr>)
     (onHandlingFailed ''M1'' ''x'' (idle\<lparr>m_directiveBeingPreHandled := Some M1\<rparr>))"
    by (rule step_onHandlingFailed)
  have many: "concurrent_step\<^sup>*\<^sup>* (idle\<lparr>m_directiveBeingPreHandled := Some M2\<rparr>)
     (onHandlingCompleted ''M1'' (idle\<lparr>m_directiveBeingPreHandled := Some M2\<rparr>))"
    by (rule r_into_rtranclp) (rule step_onHandlingCompleted)
  have here: "onHandlingCompleted ''M1'' (idle\<lparr>m_directiveBeingPreHandled := Some M2\<rparr>) =
      idle\<lparr>m_directiveBeingPreHandled := Some M2\<rparr>"
    using removeFromHandlingQueueLocked_absent [of "idle\<lparr>m_directiveBeingPreHandled := Some M2\<rparr>" "''M1''"]
      removeFromCancelingQueueLocked_absent [of "idle\<lparr>m_directiveBeingPreHandled := Some M2\<rparr>" "''M1''"]
    by (simp add: onHandlingCompleted_def beingPreHandled_def)
  show ?thesis
    using one many here
      slot_assigned_by_onDirective_only [of "idle\<lparr>m_directiveBeingPreHandled := Some M1\<rparr>"
        "onHandlingFailed ''M1'' ''x'' (idle\<lparr>m_directiveBeingPreHandled := Some M1\<rparr>)"]
      slot_assigned_by_onDirective_only [of "idle\<lparr>m_directiveBeingPreHandled := Some M2\<rparr>"
        "onHandlingCompleted ''M1'' (idle\<lparr>m_directiveBeingPreHandled := Some M2\<rparr>)" M2 True]
    by (simp add: onHandlingFailed_def beingPreHandled_def queueAll_closed)
qed

end
